theory Spec2Isabelle
  imports Main
begin

section \<open>Job state snapshots\<close>

text \<open>
  Modelled from the spec: the type \<^verbatim>\<open>JobStateFragment\<close> is imported from
  \<^verbatim>\<open>src/types/JobStateFragment\<close>, which is not part of the sources at hand. Its shape
  follows the selection set of \<^verbatim>\<open>JOB_STATE_FRAGMENT\<close> in \<^verbatim>\<open>JobUtils.tsx\<close> and section 3
  of the specification. Enumeration values (\<^verbatim>\<open>jobType\<close>, both \<^verbatim>\<open>status\<close> fields) are the
  strings they are at run time. The two structures that only the collaborators read
  (\<^verbatim>\<open>repositoryOrigin\<close> and the elements of \<^verbatim>\<open>ticks\<close>) are type parameters.

  Field names are those of the source, except where two records would share a name or
  a name is taken by HOL: \<^verbatim>\<open>id\<close>, \<^verbatim>\<open>name\<close> and \<^verbatim>\<open>status\<close> carry the prefix of their record.
\<close>

record JobStateFragment_runs =
  run_id :: string
  runId :: string
  run_status :: string

datatype JobStateFragment_jobSpecificData =
    SensorJobData "string option"
  | ScheduleJobData string

record ('origin, 'tick) JobStateFragment =
  job_id :: string
  job_name :: string
  jobType :: string
  job_status :: string
  repositoryOrigin :: 'origin
  jobSpecificData :: "JobStateFragment_jobSpecificData option"
  runs :: "JobStateFragment_runs list"
  ticks :: "'tick list"
  runningCount :: int


section \<open>React elements\<close>

text \<open>
  A JSX expression evaluates to an element: a type (a host tag such as \<^verbatim>\<open>span\<close>, or a
  reference to a component), the props in the order they are written, and the children.
  Creating an element does not call the component, so \<^verbatim>\<open>Group\<close>, \<^verbatim>\<open>RunStatus\<close> and \<^verbatim>\<open>Link\<close>
  stay references in the value that \<^verbatim>\<open>JobRunStatus\<close> returns.
\<close>

datatype component = Group | RunStatus | Link

datatype element_type = Host string | Component component

datatype prop_value =
    StringProp string
  | NumberProp int
  | ObjectProp "(string \<times> string) list"

datatype element =
    Element element_type "(string \<times> prop_value) list" "element list"
  | Text string

fun elements :: "element \<Rightarrow> element list" where
  "elements (Text s) = []"
| "elements (Element t ps cs) = Element t ps cs # concat (map elements cs)"

fun text_content :: "element \<Rightarrow> string" where
  "text_content (Text s) = s"
| "text_content (Element t ps cs) = concat (map text_content cs)"

fun has_type :: "element_type \<Rightarrow> element \<Rightarrow> bool" where
  "has_type t (Text s) = False"
| "has_type t (Element t' ps cs) = (t' = t)"

definition elements_of_type :: "element_type \<Rightarrow> element \<Rightarrow> element list" where
  "elements_of_type t e = filter (has_type t) (elements e)"

fun get_prop :: "string \<Rightarrow> element \<Rightarrow> prop_value option" where
  "get_prop k (Text s) = None"
| "get_prop k (Element t ps cs) = map_of ps k"


section \<open>The run status projector\<close>

text \<open>
  The values and the function that \<^verbatim>\<open>JobUtils.tsx\<close> imports from other modules:
  \<^verbatim>\<open>Colors.GRAY4\<close>, \<^verbatim>\<open>FontFamily.monospace\<close> and \<^verbatim>\<open>titleForRun\<close>. They are parameters of the
  model. \<^verbatim>\<open>titleForRun\<close> is given the run id of the object literal it is called on.
\<close>

record collaborators =
  Colors_GRAY4 :: string
  FontFamily_monospace :: string
  titleForRun :: "string \<Rightarrow> string"

datatype js_error = TypeError

text \<open>
  Reading an array at an index: out of range the result is \<^verbatim>\<open>undefined\<close>, here \<open>None\<close>.
  Reading a property of \<^verbatim>\<open>undefined\<close> throws a \<^verbatim>\<open>TypeError\<close>.
\<close>

definition array_get :: "'a list \<Rightarrow> nat \<Rightarrow> 'a option" where
  "array_get xs i = (if i < length xs then Some (xs ! i) else None)"

definition JobRunStatus ::
  "collaborators \<Rightarrow> ('origin, 'tick) JobStateFragment \<Rightarrow> js_error + element" where
  "JobRunStatus c jobState =
     (if length (runs jobState) = 0 then
        Inr (Element (Host ''span'')
               [(''style'', ObjectProp [(''color'', Colors_GRAY4 c)])]
               [Text ''None''])
      else
        (case array_get (runs jobState) 0 of
           None \<Rightarrow> Inl TypeError
         | Some run \<Rightarrow>
             Inr (Element (Component Group)
                    [(''direction'', StringProp ''row''),
                     (''spacing'', NumberProp 4),
                     (''alignItems'', StringProp ''center'')]
                    [Element (Component RunStatus)
                       [(''status'', StringProp (run_status run))] [],
                     Element (Component Link)
                       [(''to'', StringProp (''/instance/runs/'' @ runId run)),
                        (''target'', StringProp ''_blank''),
                        (''rel'', StringProp ''noreferrer'')]
                       [Element (Host ''span'')
                          [(''style'',
                            ObjectProp [(''fontFamily'', FontFamily_monospace c)])]
                          [Text (titleForRun c (runId run))]]])))"


section \<open>Sample values\<close>

definition sample_collaborators :: collaborators where
  "sample_collaborators =
     \<lparr>Colors_GRAY4 = ''#a7b6c2'', FontFamily_monospace = ''monospace'',
      titleForRun = take 8\<rparr>"

definition never_run_job :: "(unit, unit) JobStateFragment" where
  "never_run_job =
     \<lparr>job_id = ''j0'', job_name = ''my_sensor'', jobType = ''SENSOR'',
      job_status = ''RUNNING'', repositoryOrigin = (),
      jobSpecificData = Some (SensorJobData None),
      runs = [], ticks = [], runningCount = 0\<rparr>"

definition succeeded_job :: "(unit, unit) JobStateFragment" where
  "succeeded_job =
     \<lparr>job_id = ''j1'', job_name = ''my_schedule'', jobType = ''SCHEDULE'',
      job_status = ''RUNNING'', repositoryOrigin = (),
      jobSpecificData = Some (ScheduleJobData ''0 0 * * *''),
      runs = [\<lparr>run_id = ''r1'', runId = ''abc123'', run_status = ''SUCCESS''\<rparr>],
      ticks = [], runningCount = 0\<rparr>"

definition two_runs_job :: "(unit, unit) JobStateFragment" where
  "two_runs_job =
     \<lparr>job_id = ''j2'', job_name = ''my_schedule'', jobType = ''SCHEDULE'',
      job_status = ''STOPPED'', repositoryOrigin = (),
      jobSpecificData = None,
      runs = [\<lparr>run_id = ''r2'', runId = ''0f3a77c2-91d4'', run_status = ''FAILURE''\<rparr>,
              \<lparr>run_id = ''r1'', runId = ''abc123'', run_status = ''SUCCESS''\<rparr>],
      ticks = [(), ()], runningCount = 3\<rparr>"

definition relabelled_job :: "(nat, string) JobStateFragment" where
  "relabelled_job =
     \<lparr>job_id = ''j9'', job_name = ''other_sensor'', jobType = ''SENSOR'',
      job_status = ''STOPPED'', repositoryOrigin = 7,
      jobSpecificData = Some (SensorJobData (Some ''key'')),
      runs = [\<lparr>run_id = ''r1'', runId = ''abc123'', run_status = ''SUCCESS''\<rparr>],
      ticks = [''t1''], runningCount = 12\<rparr>"


section \<open>Query documents\<close>

text \<open>
  The \<^verbatim>\<open>gql\<close> tag turns the template into a document: the list of the definitions written
  in the template, followed by the definitions of the documents interpolated into it, in
  the order of the interpolations. A selection is a field (name, arguments, selection
  set), a fragment spread or an inline fragment with its type condition.
\<close>

datatype gql_value = IntValue int

datatype selection =
    FieldNode string "(string \<times> gql_value) list" "selection list"
  | FragmentSpreadNode string
  | InlineFragmentNode string "selection list"

datatype fragment_definition =
  FragmentDefinitionNode string string "selection list"

type_synonym document = "fragment_definition list"

fun fragment_name :: "fragment_definition \<Rightarrow> string" where
  "fragment_name (FragmentDefinitionNode n t ss) = n"

fun selection_set :: "fragment_definition \<Rightarrow> selection list" where
  "selection_set (FragmentDefinitionNode n t ss) = ss"

definition JobStateFragment_definition :: fragment_definition where
  "JobStateFragment_definition =
     FragmentDefinitionNode ''JobStateFragment'' ''JobState''
       [FieldNode ''id'' [] [],
        FieldNode ''name'' [] [],
        FieldNode ''jobType'' [] [],
        FieldNode ''status'' [] [],
        FieldNode ''repositoryOrigin'' []
          [FragmentSpreadNode ''RepositoryOriginFragment''],
        FieldNode ''jobSpecificData'' []
          [InlineFragmentNode ''SensorJobData'' [FieldNode ''lastRunKey'' [] []],
           InlineFragmentNode ''ScheduleJobData'' [FieldNode ''cronSchedule'' [] []]],
        FieldNode ''runs'' [(''limit'', IntValue 1)]
          [FieldNode ''id'' [] [],
           FieldNode ''runId'' [] [],
           FieldNode ''status'' [] []],
        FieldNode ''status'' [] [],
        FieldNode ''ticks'' [(''limit'', IntValue 1)]
          [FieldNode ''id'' [] [],
           FragmentSpreadNode ''TickTagFragment''],
        FieldNode ''runningCount'' [] []]"

text \<open>
  The three interpolated documents come from modules that are not part of the sources
  at hand; they are the parameters of the composed document.
\<close>

definition JOB_STATE_FRAGMENT :: "document \<Rightarrow> document \<Rightarrow> document \<Rightarrow> document" where
  "JOB_STATE_FRAGMENT REPOSITORY_ORIGIN_FRAGMENT PythonErrorFragment TICK_TAG_FRAGMENT =
     JobStateFragment_definition
       # REPOSITORY_ORIGIN_FRAGMENT @ PythonErrorFragment @ TICK_TAG_FRAGMENT"

text \<open>Reading a document: the selection set of the fragment of a given name.\<close>

definition fragment_body :: "string \<Rightarrow> document \<Rightarrow> selection list" where
  "fragment_body n doc =
     (case find (\<lambda>d. fragment_name d = n) doc of
        None \<Rightarrow> []
      | Some d \<Rightarrow> selection_set d)"

definition JobStateFragment_body :: "document \<Rightarrow> document \<Rightarrow> document \<Rightarrow> selection list" where
  "JobStateFragment_body origin_doc error_doc tick_doc =
     fragment_body ''JobStateFragment'' (JOB_STATE_FRAGMENT origin_doc error_doc tick_doc)"

text \<open>The fields declared at one nesting level, in order, with repetitions.\<close>

fun field_name :: "selection \<Rightarrow> string list" where
  "field_name (FieldNode n args ss) = [n]"
| "field_name (FragmentSpreadNode f) = []"
| "field_name (InlineFragmentNode t ss) = []"

definition field_names :: "selection list \<Rightarrow> string list" where
  "field_names ss = concat (map field_name ss)"

text \<open>Every declaration of the field \<open>n\<close> at one nesting level: arguments and selection set.\<close>

fun field_named :: "string \<Rightarrow> selection \<Rightarrow> ((string \<times> gql_value) list \<times> selection list) list" where
  "field_named n (FieldNode m args ss) = (if m = n then [(args, ss)] else [])"
| "field_named n (FragmentSpreadNode f) = []"
| "field_named n (InlineFragmentNode t ss) = []"

definition fields_named ::
  "string \<Rightarrow> selection list \<Rightarrow> ((string \<times> gql_value) list \<times> selection list) list" where
  "fields_named n ss = concat (map (field_named n) ss)"

text \<open>The fragments spread directly in a selection set, and those spread anywhere below it.\<close>

fun spread_name :: "selection \<Rightarrow> string list" where
  "spread_name (FieldNode n args ss) = []"
| "spread_name (FragmentSpreadNode f) = [f]"
| "spread_name (InlineFragmentNode t ss) = []"

definition spreads_under :: "string \<Rightarrow> selection list \<Rightarrow> string list" where
  "spreads_under n ss = concat (map (\<lambda>(args, sub). concat (map spread_name sub)) (fields_named n ss))"

fun all_spreads :: "selection \<Rightarrow> string list" where
  "all_spreads (FieldNode n args ss) = concat (map all_spreads ss)"
| "all_spreads (FragmentSpreadNode f) = [f]"
| "all_spreads (InlineFragmentNode t ss) = concat (map all_spreads ss)"

definition spread_names :: "selection list \<Rightarrow> string list" where
  "spread_names ss = concat (map all_spreads ss)"

text \<open>
  Sample collaborator documents, used as concrete inputs only: one fragment each, the
  tick fragment selecting an error payload through the error fragment.
\<close>

definition sample_origin_document :: document where
  "sample_origin_document =
     [FragmentDefinitionNode ''RepositoryOriginFragment'' ''RepositoryOrigin''
        [FieldNode ''id'' [] []]]"

definition sample_error_document :: document where
  "sample_error_document =
     [FragmentDefinitionNode ''PythonErrorFragment'' ''PythonError''
        [FieldNode ''message'' [] [], FieldNode ''stack'' [] []]]"

definition sample_tick_document :: document where
  "sample_tick_document =
     [FragmentDefinitionNode ''TickTagFragment'' ''JobTick''
        [FieldNode ''id'' [] [],
         FieldNode ''status'' [] [],
         FieldNode ''error'' [] [FragmentSpreadNode ''PythonErrorFragment'']]]"


section \<open>Properties of the run status projector\<close>

lemma JobRunStatus_empty:
  "runs jobState = [] \<Longrightarrow>
   JobRunStatus c jobState =
     Inr (Element (Host ''span'')
            [(''style'', ObjectProp [(''color'', Colors_GRAY4 c)])]
            [Text ''None''])"
  by (simp add: JobRunStatus_def)

text \<open>
  C2. When \<open>runs\<close> is empty the projector returns the empty state, whatever the other
  fields hold: a \<^verbatim>\<open>span\<close> coloured with the muted tone \<^verbatim>\<open>Colors.GRAY4\<close> whose only child
  is the text \<^verbatim>\<open>None\<close>. The value contains no \<^verbatim>\<open>Link\<close> and no \<^verbatim>\<open>RunStatus\<close> element.
\<close>

theorem JobRunStatus_empty_state:
  assumes "runs jobState = []"
  shows "\<exists>v. JobRunStatus c jobState = Inr v
          \<and> v = Element (Host ''span'')
                  [(''style'', ObjectProp [(''color'', Colors_GRAY4 c)])]
                  [Text ''None'']
          \<and> text_content v = ''None''
          \<and> elements_of_type (Component Link) v = []
          \<and> elements_of_type (Component RunStatus) v = []"
  using assms by (simp add: JobRunStatus_empty elements_of_type_def)

theorem JobRunStatus_empty_state_witness:
  "runs never_run_job = []
   \<and> (\<exists>v. JobRunStatus sample_collaborators never_run_job = Inr v
          \<and> v = Element (Host ''span'')
                  [(''style'', ObjectProp [(''color'', ''#a7b6c2'')])]
                  [Text ''None'']
          \<and> text_content v = ''None''
          \<and> elements_of_type (Component Link) v = []
          \<and> elements_of_type (Component RunStatus) v = [])"
  using JobRunStatus_empty_state [of never_run_job sample_collaborators]
  by (simp add: never_run_job_def sample_collaborators_def)

lemma JobRunStatus_nonempty:
  "runs jobState = run # rest \<Longrightarrow>
   JobRunStatus c jobState =
     Inr (Element (Component Group)
            [(''direction'', StringProp ''row''),
             (''spacing'', NumberProp 4),
             (''alignItems'', StringProp ''center'')]
            [Element (Component RunStatus)
               [(''status'', StringProp (run_status run))] [],
             Element (Component Link)
               [(''to'', StringProp (''/instance/runs/'' @ runId run)),
                (''target'', StringProp ''_blank''),
                (''rel'', StringProp ''noreferrer'')]
               [Element (Host ''span'')
                  [(''style'', ObjectProp [(''fontFamily'', FontFamily_monospace c)])]
                  [Text (titleForRun c (runId run))]]])"
  by (simp add: JobRunStatus_def array_get_def)

lemma nonempty_runs_split:
  "runs jobState \<noteq> [] \<Longrightarrow> \<exists>rest. runs jobState = (runs jobState ! 0) # rest"
  by (cases "runs jobState") auto

text \<open>
  C1. When \<open>runs\<close> is not empty, the value returned holds exactly one \<^verbatim>\<open>RunStatus\<close>
  element, whose \<^verbatim>\<open>status\<close> prop is the status of the first run, and exactly one \<^verbatim>\<open>Link\<close>
  element. The link's target encodes the run id of the first run (dropping the fixed
  prefix of the target gives the run id back), and the text shown inside the link is
  \<^verbatim>\<open>titleForRun\<close> applied to that run id.
\<close>

theorem JobRunStatus_run_state:
  assumes "runs jobState \<noteq> []"
  shows "\<exists>v badge link target.
           JobRunStatus c jobState = Inr v
         \<and> elements_of_type (Component RunStatus) v = [badge]
         \<and> get_prop ''status'' badge = Some (StringProp (run_status (runs jobState ! 0)))
         \<and> elements_of_type (Component Link) v = [link]
         \<and> get_prop ''to'' link = Some (StringProp target)
         \<and> drop (length ''/instance/runs/'') target = runId (runs jobState ! 0)
         \<and> text_content link = titleForRun c (runId (runs jobState ! 0))"
proof -
  from assms obtain rest where rs: "runs jobState = (runs jobState ! 0) # rest"
    using nonempty_runs_split by blast
  show ?thesis
    by (simp add: JobRunStatus_nonempty [OF rs] elements_of_type_def)
qed

theorem JobRunStatus_run_state_witness:
  "runs succeeded_job \<noteq> []
   \<and> (\<exists>v badge link target.
           JobRunStatus sample_collaborators succeeded_job = Inr v
         \<and> elements_of_type (Component RunStatus) v = [badge]
         \<and> get_prop ''status'' badge = Some (StringProp ''SUCCESS'')
         \<and> elements_of_type (Component Link) v = [link]
         \<and> get_prop ''to'' link = Some (StringProp target)
         \<and> drop (length ''/instance/runs/'') target = ''abc123''
         \<and> text_content link = ''abc123'')"
  using JobRunStatus_run_state [of succeeded_job sample_collaborators]
  by (simp add: succeeded_job_def sample_collaborators_def)

text \<open>
  C3. When \<open>runs\<close> has more than one element, the projector returns what it returns on
  the same snapshot with \<open>runs\<close> cut down to its first element: the later runs are never
  read, and the first one is taken by position, without sorting.
\<close>

theorem JobRunStatus_first_run_only:
  assumes "1 < length (runs jobState)"
  shows "JobRunStatus c jobState
           = JobRunStatus c (jobState\<lparr>runs := [runs jobState ! 0]\<rparr>)"
proof -
  from assms have "runs jobState \<noteq> []" by auto
  then obtain rest where rs: "runs jobState = (runs jobState ! 0) # rest"
    using nonempty_runs_split by blast
  have one: "runs (jobState\<lparr>runs := [runs jobState ! 0]\<rparr>) = (runs jobState ! 0) # []"
    by simp
  show ?thesis
    by (simp only: JobRunStatus_nonempty [OF rs] JobRunStatus_nonempty [OF one])
qed

theorem JobRunStatus_first_run_only_witness:
  "1 < length (runs two_runs_job)
   \<and> runs two_runs_job ! 0 = \<lparr>run_id = ''r2'', runId = ''0f3a77c2-91d4'', run_status = ''FAILURE''\<rparr>
   \<and> JobRunStatus sample_collaborators two_runs_job
       = JobRunStatus sample_collaborators
           (two_runs_job\<lparr>runs := [\<lparr>run_id = ''r2'', runId = ''0f3a77c2-91d4'',
                                    run_status = ''FAILURE''\<rparr>]\<rparr>)"
  using JobRunStatus_first_run_only [of two_runs_job sample_collaborators]
  by (simp add: two_runs_job_def)

text \<open>
  C6. The projector returns an element for every snapshot, the one with no runs
  included, and never the error: the read of \<^verbatim>\<open>runs[0]\<close> is only reached when the array has
  an element, so the property reads that follow cannot throw.
\<close>

theorem JobRunStatus_total:
  "(\<exists>t ps cs. JobRunStatus c jobState = Inr (Element t ps cs))
   \<and> (\<forall>e. JobRunStatus c jobState \<noteq> Inl e)"
proof (cases "runs jobState")
  case Nil
  then show ?thesis by (simp add: JobRunStatus_empty)
next
  case (Cons run rest)
  then show ?thesis by (simp add: JobRunStatus_nonempty)
qed

theorem JobRunStatus_total_witness:
  "(\<exists>t ps cs. JobRunStatus sample_collaborators never_run_job = Inr (Element t ps cs))
   \<and> (\<forall>e. JobRunStatus sample_collaborators never_run_job \<noteq> Inl e)
   \<and> (\<exists>t ps cs. JobRunStatus sample_collaborators two_runs_job = Inr (Element t ps cs))
   \<and> (\<forall>e. JobRunStatus sample_collaborators two_runs_job \<noteq> Inl e)"
  using JobRunStatus_total [of sample_collaborators never_run_job]
    JobRunStatus_total [of sample_collaborators two_runs_job]
  by simp

text \<open>
  C7. When \<open>runs\<close> is not empty, the one \<^verbatim>\<open>Link\<close> element of the value returned carries
  the prop \<^verbatim>\<open>target="_blank"\<close>: following it opens a new browsing context and leaves the
  current view in place.
\<close>

theorem JobRunStatus_link_target_blank:
  assumes "runs jobState \<noteq> []"
  shows "\<exists>v link.
           JobRunStatus c jobState = Inr v
         \<and> elements_of_type (Component Link) v = [link]
         \<and> get_prop ''target'' link = Some (StringProp ''_blank'')"
proof -
  from assms obtain rest where rs: "runs jobState = (runs jobState ! 0) # rest"
    using nonempty_runs_split by blast
  show ?thesis
    by (simp add: JobRunStatus_nonempty [OF rs] elements_of_type_def)
qed

theorem JobRunStatus_link_target_blank_witness:
  "runs two_runs_job \<noteq> []
   \<and> (\<exists>v link.
           JobRunStatus sample_collaborators two_runs_job = Inr v
         \<and> elements_of_type (Component Link) v = [link]
         \<and> get_prop ''target'' link = Some (StringProp ''_blank''))"
  using JobRunStatus_link_target_blank [of two_runs_job sample_collaborators]
  by (simp add: two_runs_job_def)

text \<open>
  C8. When \<open>runs\<close> is not empty, the \<^verbatim>\<open>to\<close> prop of the link is exactly the string
  \<^verbatim>\<open>/instance/runs/\<close> followed by the run id of the first run.
\<close>

theorem JobRunStatus_link_path:
  assumes "runs jobState \<noteq> []"
  shows "\<exists>v link.
           JobRunStatus c jobState = Inr v
         \<and> elements_of_type (Component Link) v = [link]
         \<and> get_prop ''to'' link
             = Some (StringProp (''/instance/runs/'' @ runId (runs jobState ! 0)))"
proof -
  from assms obtain rest where rs: "runs jobState = (runs jobState ! 0) # rest"
    using nonempty_runs_split by blast
  show ?thesis
    by (simp add: JobRunStatus_nonempty [OF rs] elements_of_type_def)
qed

theorem JobRunStatus_link_path_witness:
  "runs two_runs_job \<noteq> []
   \<and> (\<exists>v link.
           JobRunStatus sample_collaborators two_runs_job = Inr v
         \<and> elements_of_type (Component Link) v = [link]
         \<and> get_prop ''to'' link = Some (StringProp ''/instance/runs/0f3a77c2-91d4''))"
  using JobRunStatus_link_path [of two_runs_job sample_collaborators]
  by (simp add: two_runs_job_def)

text \<open>
  C9. Two snapshots with the same \<open>runs\<close> are projected to the same value, whatever
  their other fields hold (the two snapshots may even differ in the types of their
  origin and tick structures). The collaborators are the same on both sides.
\<close>

theorem JobRunStatus_reads_runs_only:
  fixes a :: "('origin1, 'tick1) JobStateFragment"
    and b :: "('origin2, 'tick2) JobStateFragment"
  assumes "runs a = runs b"
  shows "JobRunStatus c a = JobRunStatus c b"
  using assms by (simp add: JobRunStatus_def)

theorem JobRunStatus_reads_runs_only_witness:
  "runs succeeded_job = runs relabelled_job
   \<and> job_name succeeded_job \<noteq> job_name relabelled_job
   \<and> runningCount succeeded_job \<noteq> runningCount relabelled_job
   \<and> JobRunStatus sample_collaborators succeeded_job
       = JobRunStatus sample_collaborators relabelled_job"
  using JobRunStatus_reads_runs_only [of succeeded_job relabelled_job sample_collaborators]
  by (simp add: succeeded_job_def relabelled_job_def)


section \<open>Properties of the composed fragment\<close>

lemma JobStateFragment_body_eq:
  "JobStateFragment_body origin_doc error_doc tick_doc
     = selection_set JobStateFragment_definition"
  by (simp add: JobStateFragment_body_def fragment_body_def JOB_STATE_FRAGMENT_def
      JobStateFragment_definition_def)

lemma JobStateFragment_field_names:
  "field_names (JobStateFragment_body origin_doc error_doc tick_doc)
     = [''id'', ''name'', ''jobType'', ''status'', ''repositoryOrigin'',
        ''jobSpecificData'', ''runs'', ''status'', ''ticks'', ''runningCount'']"
  by (simp add: JobStateFragment_body_eq JobStateFragment_definition_def field_names_def)

text \<open>
  The part of C4 that the declaration does satisfy: the fields declared at the top level
  of the fragment are strictly more than the six named ones, and the composed document
  holds every definition of the three collaborator documents.
\<close>

lemma strict_subset_by_member:
  "x \<in> B \<Longrightarrow> x \<notin> A \<Longrightarrow> A \<subseteq> B \<Longrightarrow> A \<subset> B"
  by blast

lemma JobStateFragment_fields_superset:
  "{''id'', ''name'', ''jobType'', ''status'', ''jobSpecificData'', ''runningCount''}
     \<subset> set (field_names (JobStateFragment_body origin_doc error_doc tick_doc))"
  by (rule strict_subset_by_member [where x = "''runs''"])
    (simp_all add: JobStateFragment_field_names)

lemma JOB_STATE_FRAGMENT_includes_collaborators:
  "set origin_doc \<union> set error_doc \<union> set tick_doc
     \<subseteq> set (JOB_STATE_FRAGMENT origin_doc error_doc tick_doc)"
  by (auto simp add: JOB_STATE_FRAGMENT_def)

text \<open>
  C4. The top level of the fragment declares \<^verbatim>\<open>status\<close> twice (once after \<^verbatim>\<open>jobType\<close>,
  once after \<^verbatim>\<open>runs\<close>), so its field declarations at that nesting level are not free of
  duplicates.
\<close>

theorem JOB_STATE_FRAGMENT_status_declared_twice:
  "length (fields_named ''status'' (JobStateFragment_body origin_doc error_doc tick_doc)) = 2
   \<and> \<not> distinct (field_names (JobStateFragment_body origin_doc error_doc tick_doc))"
proof
  show "length (fields_named ''status'' (JobStateFragment_body origin_doc error_doc tick_doc)) = 2"
    by (simp add: JobStateFragment_body_eq JobStateFragment_definition_def fields_named_def)
  show "\<not> distinct (field_names (JobStateFragment_body origin_doc error_doc tick_doc))"
    by (simp add: JobStateFragment_field_names)
qed

text \<open>
  C5, as the declaration has it. The fragment body spreads the origin fragment under
  \<^verbatim>\<open>repositoryOrigin\<close> and the tick-tag fragment under \<^verbatim>\<open>ticks\<close>, and these are the only
  two spreads anywhere in the body: it selects no error payload and does not spread the
  error fragment. The definitions of all three collaborator documents, the error
  fragment's among them, are part of the composed document.
\<close>

theorem JOB_STATE_FRAGMENT_spreads:
  "spreads_under ''repositoryOrigin'' (JobStateFragment_body origin_doc error_doc tick_doc)
     = [''RepositoryOriginFragment'']
   \<and> spreads_under ''ticks'' (JobStateFragment_body origin_doc error_doc tick_doc)
     = [''TickTagFragment'']
   \<and> spread_names (JobStateFragment_body origin_doc error_doc tick_doc)
     = [''RepositoryOriginFragment'', ''TickTagFragment'']
   \<and> set origin_doc \<union> set error_doc \<union> set tick_doc
     \<subseteq> set (JOB_STATE_FRAGMENT origin_doc error_doc tick_doc)"
proof (intro conjI)
  show "spreads_under ''repositoryOrigin'' (JobStateFragment_body origin_doc error_doc tick_doc)
          = [''RepositoryOriginFragment'']"
    by (simp add: JobStateFragment_body_eq JobStateFragment_definition_def
        spreads_under_def fields_named_def)
  show "spreads_under ''ticks'' (JobStateFragment_body origin_doc error_doc tick_doc)
          = [''TickTagFragment'']"
    by (simp add: JobStateFragment_body_eq JobStateFragment_definition_def
        spreads_under_def fields_named_def)
  show "spread_names (JobStateFragment_body origin_doc error_doc tick_doc)
          = [''RepositoryOriginFragment'', ''TickTagFragment'']"
    by (simp add: JobStateFragment_body_eq JobStateFragment_definition_def spread_names_def)
  show "set origin_doc \<union> set error_doc \<union> set tick_doc
          \<subseteq> set (JOB_STATE_FRAGMENT origin_doc error_doc tick_doc)"
    by (rule JOB_STATE_FRAGMENT_includes_collaborators)
qed

theorem JOB_STATE_FRAGMENT_spreads_witness:
  "spreads_under ''repositoryOrigin''
       (JobStateFragment_body sample_origin_document sample_error_document sample_tick_document)
     = [''RepositoryOriginFragment'']
   \<and> spreads_under ''ticks''
       (JobStateFragment_body sample_origin_document sample_error_document sample_tick_document)
     = [''TickTagFragment'']
   \<and> spread_names
       (JobStateFragment_body sample_origin_document sample_error_document sample_tick_document)
     = [''RepositoryOriginFragment'', ''TickTagFragment'']
   \<and> set sample_origin_document \<union> set sample_error_document \<union> set sample_tick_document
     \<subseteq> set (JOB_STATE_FRAGMENT sample_origin_document sample_error_document
         sample_tick_document)
   \<and> map fragment_name
       (JOB_STATE_FRAGMENT sample_origin_document sample_error_document sample_tick_document)
     = [''JobStateFragment'', ''RepositoryOriginFragment'', ''PythonErrorFragment'',
        ''TickTagFragment'']"
  using JOB_STATE_FRAGMENT_spreads
    [of sample_origin_document sample_error_document sample_tick_document]
  by (simp add: JOB_STATE_FRAGMENT_def JobStateFragment_definition_def
      sample_origin_document_def sample_error_document_def sample_tick_document_def)

text \<open>
  C5, as stated, fails for the error fragment: with the sample collaborator documents,
  \<^verbatim>\<open>PythonErrorFragment\<close> is defined in the composed document but is not among the
  fragments spread in the body of \<^verbatim>\<open>JobStateFragment\<close>.
\<close>

theorem JOB_STATE_FRAGMENT_error_fragment_not_spread:
  "''PythonErrorFragment''
     \<in> set (map fragment_name
         (JOB_STATE_FRAGMENT sample_origin_document sample_error_document sample_tick_document))
   \<and> ''PythonErrorFragment''
     \<notin> set (spread_names
         (JobStateFragment_body sample_origin_document sample_error_document
            sample_tick_document))"
  by (simp add: JobStateFragment_body_eq JobStateFragment_definition_def spread_names_def
      JOB_STATE_FRAGMENT_def
      sample_origin_document_def sample_error_document_def sample_tick_document_def)

text \<open>
  C10. The fragment declares \<^verbatim>\<open>runs\<close> once, with the argument \<^verbatim>\<open>limit: 1\<close>, and \<^verbatim>\<open>ticks\<close>
  once, with the argument \<^verbatim>\<open>limit: 1\<close>.
\<close>

theorem JOB_STATE_FRAGMENT_limits:
  "map fst (fields_named ''runs'' (JobStateFragment_body origin_doc error_doc tick_doc))
     = [[(''limit'', IntValue 1)]]
   \<and> map fst (fields_named ''ticks'' (JobStateFragment_body origin_doc error_doc tick_doc))
     = [[(''limit'', IntValue 1)]]"
  by (simp add: JobStateFragment_body_eq JobStateFragment_definition_def fields_named_def)

theorem JOB_STATE_FRAGMENT_limits_witness:
  "map fst (fields_named ''runs''
       (JobStateFragment_body sample_origin_document sample_error_document sample_tick_document))
     = [[(''limit'', IntValue 1)]]
   \<and> map fst (fields_named ''ticks''
       (JobStateFragment_body sample_origin_document sample_error_document sample_tick_document))
     = [[(''limit'', IntValue 1)]]"
  using JOB_STATE_FRAGMENT_limits
    [of sample_origin_document sample_error_document sample_tick_document]
  by simp

end
